theory Spec2Isabelle
  imports Complex_Main "HOL-Library.List_Lexorder" "HOL-Library.Char_ord" "HOL-Library.Log_Nat"
begin

section \<open>Values shared by the route modules\<close>

text \<open>
  The routes receive JSON numbers: Python's \<^verbatim>\<open>int\<close>, which is unbounded,
  and \<^verbatim>\<open>float\<close>, an IEEE-754 double. Both are rationals; a
  \<open>number\<close> is the value of one or the other. Comparison of an
  \<^verbatim>\<open>int\<close> with a \<^verbatim>\<open>float\<close> is exact in Python, so
  it is the comparison of the rationals; the arithmetic of doubles rounds, and is
  written with \<open>to_double\<close> below.
\<close>

type_synonym number = rat

text \<open>
  A naive \<^verbatim>\<open>datetime\<close> is the number of microseconds since
  1970-01-01T00:00:00. \<^verbatim>\<open>datetime\<close> only represents the years 1 to 9999, and
  \<^verbatim>\<open>timedelta(days=n)\<close> only \<open>|n| \<le> 999999999\<close>; arithmetic that leaves
  these ranges raises \<^verbatim>\<open>OverflowError\<close>.
\<close>

type_synonym datetime = int

text \<open>
  The exceptions that the routes can raise. \<open>NotFinite\<close> is not one of them:
  it marks a double operation whose result is \<^verbatim>\<open>inf\<close> or
  \<^verbatim>\<open>nan\<close>, with which the code goes on computing and which the
  model does not follow.
\<close>

datatype exception =
  OverflowError | ValueError | ZeroDivisionError | AttributeError | TypeError | NotFinite

text \<open>
  The responses that are not a success: 400 for a missing field, for an order that is not
  pending approval and for insufficient historical data, 404 for an unknown id, and 500
  for an exception caught by the handler's \<^verbatim>\<open>except Exception\<close>.
\<close>

datatype failure =
    MissingField string
  | NotFound
  | NotPendingApproval
  | InsufficientData
  | ServerError exception

definition day_us :: int where
  "day_us = 86400000000"

definition dt_min :: datetime where
  "dt_min = - 719162 * 86400000000"

definition dt_max :: datetime where
  "dt_max = 2932897 * 86400000000 - 1"

definition plus_days :: "datetime \<Rightarrow> int \<Rightarrow> exception + datetime" where
  "plus_days t n =
     (if 999999999 < \<bar>n\<bar> then Inl OverflowError
      else let r = t + n * day_us
           in if r < dt_min \<or> dt_max < r then Inl OverflowError else Inr r)"

text \<open>Days since 1970-01-01 to proleptic Gregorian (year, month, day).\<close>

definition civil_from_days :: "int \<Rightarrow> int \<times> int \<times> int" where
  "civil_from_days z =
     (let z' = z + 719468;
          era = z' div 146097;
          doe = z' - era * 146097;
          yoe = (doe - doe div 1460 + doe div 36524 - doe div 146096) div 365;
          doy = doe - (365 * yoe + yoe div 4 - yoe div 100);
          mp = (5 * doy + 2) div 153;
          d = doy - (153 * mp + 2) div 5 + 1;
          m = (if mp < 10 then mp + 3 else mp - 9)
      in (yoe + era * 400 + (if m \<le> 2 then 1 else 0), m, d))"

definition date_of :: "datetime \<Rightarrow> int \<times> int \<times> int" where
  "date_of t = civil_from_days (t div day_us)"

definition month :: "datetime \<Rightarrow> int" where
  "month t = fst (snd (date_of t))"


text \<open>\<^verbatim>\<open>int(x)\<close> truncates towards zero.\<close>

definition py_int :: "number \<Rightarrow> int" where
  "py_int x = (if 0 \<le> x then \<lfloor>x\<rfloor> else \<lceil>x\<rceil>)"

text \<open>The nearest integer, a tie going to the even one.\<close>

definition round_half_even :: "rat \<Rightarrow> int" where
  "round_half_even x =
     (let f = \<lfloor>x\<rfloor>; d = x - of_int f
      in if d < 1 / 2 then f else if 1 / 2 < d then f + 1
         else if even f then f else f + 1)"

text \<open>
  Rounding to the nearest double, ties to the even mantissa: a double is
  \<open>m * 2 ^ q\<close> with \<open>|m| < 2 ^ 53\<close> and \<open>q \<ge> - 1074\<close>,
  and a result of \<open>2 ^ 1024\<close> or more is out of range (\<open>None\<close>).
  \<open>floor_log2 x\<close> is the exponent \<open>e\<close> with
  \<open>2 ^ e \<le> x < 2 ^ (e + 1)\<close>, for a positive \<open>x\<close>.
\<close>

definition pow2 :: "int \<Rightarrow> rat" where
  "pow2 k = (if 0 \<le> k then 2 ^ nat k else 1 / 2 ^ nat (- k))"

definition floor_log2 :: "rat \<Rightarrow> int" where
  "floor_log2 x =
     (let k = bitlen (fst (quotient_of x)) - bitlen (snd (quotient_of x))
      in if pow2 k \<le> x then k else k - 1)"

definition to_double :: "rat \<Rightarrow> rat option" where
  "to_double x =
     (if x = 0 then Some 0
      else let a = \<bar>x\<bar>;
               q = max (floor_log2 a - 52) (- 1074);
               r = of_int (round_half_even (a / pow2 q)) * pow2 q
           in if pow2 1024 \<le> r then None else Some (if x < 0 then - r else r))"


text \<open>
  \<^verbatim>\<open>datetime.utcnow()\<close> is read many times during one request, and two
  readings need not agree. The wall clock is a sequence of readings
  \<open>clk 0, clk 1, \<dots>\<close>, each call taking the next one.
\<close>

type_synonym clock = "nat \<Rightarrow> datetime"

section \<open>The reorder routes (routes/reorder.py)\<close>

text \<open>
  A rule is the dict built by \<^verbatim>\<open>create_reorder_rule\<close>. The keys that the
  code reads with \<^verbatim>\<open>rule.get(key, default)\<close> are optional; note that
  \<^verbatim>\<open>create_reorder_rule\<close> never stores a \<^verbatim>\<open>unit_cost\<close>.
  \<^verbatim>\<open>last_triggered\<close> is \<^verbatim>\<open>None\<close> or the
  \<^verbatim>\<open>isoformat()\<close> of a clock reading, which
  \<^verbatim>\<open>fromisoformat\<close> reads back unchanged.
\<close>

record rule =
  rule_id :: string
  product_id :: string
  product_name :: "string option"
  trigger_type :: string
  trigger_value :: number
  reorder_quantity :: number
  supplier_id :: "string option"
  max_cost :: number
  unit_cost :: "number option"
  approval_required :: "bool option"
  approval_threshold :: "number option"
  lead_time_days :: "int option"
  safety_stock :: number
  seasonal_adjustment :: "bool option"
  status :: string
  created_date :: datetime
  last_triggered :: "datetime option"
  total_triggers :: int

text \<open>
  The trigger reason is a formatted text. The model keeps the format and the numbers
  put into it: \<^verbatim>\<open>"Stock level (s) below threshold (v)"\<close>,
  \<^verbatim>\<open>"Time-based trigger: n days since last order"\<close>,
  \<^verbatim>\<open>"First time trigger"\<close>,
  \<^verbatim>\<open>"Current stock (s) below predicted demand (p)"\<close> and the
  \<^verbatim>\<open>'manual_trigger'\<close> of the manual route.
\<close>

datatype trigger_reason =
    StockBelowThreshold number number
  | TimeBasedTrigger int
  | FirstTimeTrigger
  | StockBelowPredicted number number
  | ManualTrigger

datatype order_status = PendingApproval | Approved | SentToSupplier | Rejected

datatype priority = High | Medium

record order =
  order_id :: datetime
  order_rule_id :: string
  order_product_id :: string
  order_product_name :: string
  order_supplier_id :: string
  quantity :: number
  estimated_cost :: number
  trigger_reason :: trigger_reason
  order_status :: order_status
  order_created_date :: datetime
  expected_delivery :: datetime
  order_priority :: priority
  sent_date :: "datetime option"
  approved_by :: "string option"
  approved_date :: "datetime option"
  approval_notes :: "string option"
  rejected_by :: "string option"
  rejected_date :: "datetime option"
  rejection_reason :: "string option"

text \<open>
  The snapshot sent to \<^verbatim>\<open>/check-triggers\<close>: per product an optional
  \<^verbatim>\<open>current_stock\<close> and an optional \<^verbatim>\<open>demand_forecast\<close>
  dict with an optional \<^verbatim>\<open>predicted_demand\<close>.
\<close>

record inventory_entry =
  current_stock :: "number option"
  demand_forecast :: "number option option"

type_synonym inventory = "string \<rightharpoonup> inventory_entry"

record trigger_request =
  inventory_data :: "inventory option"

record approve_request =
  req_approved_by :: "string option"
  req_notes :: "string option"

record reject_request =
  req_rejected_by :: "string option"
  req_reason :: "string option"

text \<open>
  The module's globals. \<^verbatim>\<open>reorder_rules\<close> is a dict iterated in insertion
  order, so it is an association list; \<^verbatim>\<open>pending_orders\<close> is keyed by the
  order id, which is the text of a clock reading. The number of clock readings that a
  request makes depends on which rules fire, so the state counts the readings made so
  far in \<open>tick\<close>.
\<close>

record reorder_state =
  reorder_rules :: "(string \<times> rule) list"
  pending_orders :: "datetime \<rightharpoonup> order"
  tick :: nat

text \<open>
  \<^verbatim>\<open>'stockout' in trigger_reason.lower()\<close>: none of the formats above
  contains that word, whatever numbers stand in the places of s, v, n and p.
\<close>

fun mentions_stockout :: "trigger_reason \<Rightarrow> bool" where
  "mentions_stockout (StockBelowThreshold s v) = False"
| "mentions_stockout (TimeBasedTrigger n) = False"
| "mentions_stockout FirstTimeTrigger = False"
| "mentions_stockout (StockBelowPredicted s p) = False"
| "mentions_stockout ManualTrigger = False"

definition requires_approval :: "rule \<Rightarrow> number \<Rightarrow> bool" where
  "requires_approval rule estimated =
     ((case approval_required rule of None \<Rightarrow> False | Some b \<Rightarrow> b) \<or>
      (case approval_threshold rule of None \<Rightarrow> 1000 | Some a \<Rightarrow> a) < estimated)"

text \<open>
  \<^verbatim>\<open>send_order_to_supplier(order)\<close> mutates the dict it is given and reads the
  clock once, at reading \<open>k\<close>. The dict is the object held in
  \<^verbatim>\<open>pending_orders\<close>, so each caller below writes the result back under the
  order's key.
\<close>

definition send_order_to_supplier :: "clock \<Rightarrow> nat \<Rightarrow> order \<Rightarrow> order" where
  "send_order_to_supplier clk k order =
     order\<lparr>order_status := SentToSupplier, sent_date := Some (clk k)\<rparr>"

text \<open>
  \<^verbatim>\<open>create_reorder\<close> reads the clock for the order id, the creation date and
  the expected delivery, in this order; the delivery date may overflow, before anything
  is stored. \<^verbatim>\<open>trigger_reorder_webhook\<close> builds a payload and logs, with no
  effect on the state.
\<close>

definition create_reorder ::
  "clock \<Rightarrow> rule \<Rightarrow> number \<Rightarrow> trigger_reason \<Rightarrow> reorder_state
     \<Rightarrow> (exception + order) \<times> reorder_state" where
  "create_reorder clk rule qty reason s =
     (let k = tick s;
          oid = clk k;
          estimated = qty * (case unit_cost rule of None \<Rightarrow> 0 | Some c \<Rightarrow> c);
          needs = requires_approval rule estimated
      in case plus_days (clk (k + 2))
                (case lead_time_days rule of None \<Rightarrow> 7 | Some n \<Rightarrow> n) of
           Inl e \<Rightarrow> (Inl e, s\<lparr>tick := k + 3\<rparr>)
         | Inr delivery \<Rightarrow>
             let order = \<lparr>order_id = oid,
                   order_rule_id = rule_id rule,
                   order_product_id = product_id rule,
                   order_product_name =
                     (case product_name rule of None \<Rightarrow> [] | Some n \<Rightarrow> n),
                   order_supplier_id =
                     (case supplier_id rule of None \<Rightarrow> [] | Some n \<Rightarrow> n),
                   quantity = qty,
                   estimated_cost = estimated,
                   trigger_reason = reason,
                   order_status = (if needs then PendingApproval else Approved),
                   order_created_date = clk (k + 1),
                   expected_delivery = delivery,
                   order_priority = (if mentions_stockout reason then High else Medium),
                   sent_date = None, approved_by = None, approved_date = None,
                   approval_notes = None, rejected_by = None, rejected_date = None,
                   rejection_reason = None\<rparr>
             in if \<not> needs
                then let sent = send_order_to_supplier clk (k + 3) order
                     in (Inr sent,
                         s\<lparr>pending_orders := (pending_orders s)(oid \<mapsto> sent),
                           tick := k + 4\<rparr>)
                else (Inr order,
                      s\<lparr>pending_orders := (pending_orders s)(oid \<mapsto> order),
                        tick := k + 3\<rparr>))"

text \<open>
  The trigger test of \<^verbatim>\<open>check_reorder_triggers\<close> for one active rule,
  made when \<open>k\<close> clock readings have been taken: \<open>None\<close> when
  \<^verbatim>\<open>should_trigger\<close> stays false, the reason otherwise. Only a time-based
  rule that has triggered before reads the clock.
\<close>

definition stock_level :: "inventory \<Rightarrow> string \<Rightarrow> number" where
  "stock_level snap pid =
     (case snap pid of None \<Rightarrow> 0
      | Some e \<Rightarrow> (case current_stock e of None \<Rightarrow> 0 | Some c \<Rightarrow> c))"

definition predicted_level :: "inventory \<Rightarrow> string \<Rightarrow> number" where
  "predicted_level snap pid =
     (case snap pid of None \<Rightarrow> 0
      | Some e \<Rightarrow>
          (case demand_forecast e of None \<Rightarrow> 0
           | Some f \<Rightarrow> (case f of None \<Rightarrow> 0 | Some p \<Rightarrow> p)))"

definition should_trigger :: "clock \<Rightarrow> nat \<Rightarrow> inventory \<Rightarrow> rule \<Rightarrow> trigger_reason option" where
  "should_trigger clk k snap rule =
     (if trigger_type rule = ''threshold'' then
        (let stock = stock_level snap (product_id rule)
         in if stock \<le> trigger_value rule
            then Some (StockBelowThreshold stock (trigger_value rule)) else None)
      else if trigger_type rule = ''time_based'' then
        (case last_triggered rule of
           Some last_date \<Rightarrow>
             (let days_since = (clk k - last_date) div day_us
              in if trigger_value rule \<le> of_int days_since
                 then Some (TimeBasedTrigger days_since) else None)
         | None \<Rightarrow> Some FirstTimeTrigger)
      else if trigger_type rule = ''demand_forecast'' then
        (let predicted = predicted_level snap (product_id rule);
             stock = stock_level snap (product_id rule)
         in if stock < predicted then Some (StockBelowPredicted stock predicted) else None)
      else None)"

definition trigger_reads :: "rule \<Rightarrow> nat" where
  "trigger_reads rule =
     (if trigger_type rule = ''time_based'' \<and> last_triggered rule \<noteq> None then 1 else 0)"

text \<open>
  The quantity of a fired rule; with \<^verbatim>\<open>seasonal_adjustment\<close> set the clock
  is read for the month, at reading \<open>k\<close>. \<^verbatim>\<open>reorder_qty * 1.5\<close>
  is a product of doubles: an \<^verbatim>\<open>int\<close> quantity is first converted,
  which raises \<^verbatim>\<open>OverflowError\<close> when it is too large, and
  \<^verbatim>\<open>int\<close> of a product that overflowed to
  \<^verbatim>\<open>inf\<close> raises \<^verbatim>\<open>OverflowError\<close> as well.
\<close>

definition seasonal :: "rule \<Rightarrow> bool" where
  "seasonal rule = (case seasonal_adjustment rule of None \<Rightarrow> False | Some b \<Rightarrow> b)"

definition reorder_qty :: "clock \<Rightarrow> nat \<Rightarrow> rule \<Rightarrow> exception + number" where
  "reorder_qty clk k rule =
     (if seasonal rule \<and> month (clk k) \<in> {11, 12, 1}
      then (case to_double (reorder_quantity rule) of
              None \<Rightarrow> Inl OverflowError
            | Some q \<Rightarrow>
                (case to_double (q * (3 / 2)) of
                   None \<Rightarrow> Inl OverflowError
                 | Some p \<Rightarrow> Inr (of_int (py_int p))))
      else Inr (reorder_quantity rule))"

definition qty_reads :: "rule \<Rightarrow> nat" where
  "qty_reads rule = (if seasonal rule then 1 else 0)"

text \<open>
  A rule fires when it is active and its trigger test, made at clock reading \<open>k\<close>,
  succeeds.
\<close>

definition rule_fires :: "clock \<Rightarrow> nat \<Rightarrow> inventory \<Rightarrow> rule \<Rightarrow> bool" where
  "rule_fires clk k snap rule =
     (status rule = ''active'' \<and> should_trigger clk k snap rule \<noteq> None)"

text \<open>
  One iteration of the loop over \<^verbatim>\<open>reorder_rules.values()\<close>: the rule as it
  is left, and the order created if the rule fired. An exception of the quantity or of
  \<^verbatim>\<open>create_reorder\<close> leaves the loop before the rule is stamped.
\<close>

definition process_rule ::
  "clock \<Rightarrow> inventory \<Rightarrow> rule \<Rightarrow> reorder_state
     \<Rightarrow> (exception + rule \<times> order option) \<times> reorder_state" where
  "process_rule clk snap rule s =
     (if status rule \<noteq> ''active'' then (Inr (rule, None), s)
      else case should_trigger clk (tick s) snap rule of
             None \<Rightarrow> (Inr (rule, None), s\<lparr>tick := tick s + trigger_reads rule\<rparr>)
           | Some reason \<Rightarrow>
               (let k1 = tick s + trigger_reads rule
                in case reorder_qty clk k1 rule of
                     Inl e \<Rightarrow> (Inl e, s\<lparr>tick := k1 + qty_reads rule\<rparr>)
                   | Inr qty \<Rightarrow>
                       (case create_reorder clk rule qty reason
                               (s\<lparr>tick := k1 + qty_reads rule\<rparr>) of
                          (Inl e, s') \<Rightarrow> (Inl e, s')
                        | (Inr order, s') \<Rightarrow>
                            (Inr (rule\<lparr>last_triggered := Some (clk (tick s')),
                                       total_triggers := total_triggers rule + 1\<rparr>,
                                  Some order),
                             s'\<lparr>tick := Suc (tick s')\<rparr>))))"

text \<open>
  The loop. The rules are objects mutated in place, so on an exception the rules already
  stamped stay stamped; the list returned is the registry as the loop leaves it.
\<close>

fun check_rules ::
  "clock \<Rightarrow> inventory \<Rightarrow> (string \<times> rule) list \<Rightarrow> reorder_state
     \<Rightarrow> (exception + order list) \<times> (string \<times> rule) list \<times> reorder_state" where
  "check_rules clk snap [] s = (Inr [], [], s)"
| "check_rules clk snap ((rid, rule) # rest) s =
     (case process_rule clk snap rule s of
        (Inl e, s') \<Rightarrow> (Inl e, (rid, rule) # rest, s')
      | (Inr (rule', fired), s') \<Rightarrow>
          (case check_rules clk snap rest s' of
             (Inl e, rest', s'') \<Rightarrow> (Inl e, (rid, rule') # rest', s'')
           | (Inr orders, rest', s'') \<Rightarrow>
               (Inr ((case fired of None \<Rightarrow> [] | Some order \<Rightarrow> [order]) @ orders),
                (rid, rule') # rest', s'')))"

text \<open>\<^verbatim>\<open>data.get('inventory_data', {})\<close>.\<close>

definition snapshot :: "trigger_request \<Rightarrow> inventory" where
  "snapshot d = (case inventory_data d of None \<Rightarrow> Map.empty | Some snap \<Rightarrow> snap)"

text \<open>
  \<^verbatim>\<open>check_reorder_triggers\<close>: \<^verbatim>\<open>data\<close> is the JSON body
  (\<^verbatim>\<open>None\<close> for the body \<^verbatim>\<open>null\<close>, on which
  \<^verbatim>\<open>data.get\<close> raises).
\<close>

definition check_reorder_triggers ::
  "clock \<Rightarrow> trigger_request option \<Rightarrow> reorder_state
     \<Rightarrow> (failure + order list) \<times> reorder_state" where
  "check_reorder_triggers clk data s =
     (case data of
        None \<Rightarrow> (Inl (ServerError AttributeError), s)
      | Some d \<Rightarrow>
          (case check_rules clk
                  (snapshot d)
                  (reorder_rules s) s of
             (Inl e, rules', s') \<Rightarrow> (Inl (ServerError e), s'\<lparr>reorder_rules := rules'\<rparr>)
           | (Inr orders, rules', s') \<Rightarrow> (Inr orders, s'\<lparr>reorder_rules := rules'\<rparr>)))"

text \<open>
  \<^verbatim>\<open>approve_order\<close> and \<^verbatim>\<open>reject_order\<close>. The status is assigned
  before \<^verbatim>\<open>data.get\<close> is first called, so a \<^verbatim>\<open>null\<close> body
  raises after the status of a pending order has changed.
\<close>

definition approve_order ::
  "clock \<Rightarrow> datetime \<Rightarrow> approve_request option \<Rightarrow> reorder_state
     \<Rightarrow> (failure + order) \<times> reorder_state" where
  "approve_order clk oid data s =
     (case pending_orders s oid of
        None \<Rightarrow> (Inl NotFound, s)
      | Some order \<Rightarrow>
          if order_status order \<noteq> PendingApproval then (Inl NotPendingApproval, s)
          else (case data of
                  None \<Rightarrow>
                    (Inl (ServerError AttributeError),
                     s\<lparr>pending_orders :=
                          (pending_orders s)(oid \<mapsto> order\<lparr>order_status := Approved\<rparr>)\<rparr>)
                | Some d \<Rightarrow>
                    (let approved = order\<lparr>order_status := Approved,
                           approved_by :=
                             Some (case req_approved_by d of None \<Rightarrow> ''system''
                                   | Some a \<Rightarrow> a),
                           approved_date := Some (clk (tick s)),
                           approval_notes :=
                             Some (case req_notes d of None \<Rightarrow> [] | Some n \<Rightarrow> n)\<rparr>;
                         sent = send_order_to_supplier clk (tick s + 1) approved
                     in (Inr sent,
                         s\<lparr>pending_orders := (pending_orders s)(oid \<mapsto> sent),
                           tick := tick s + 2\<rparr>))))"

definition reject_order ::
  "clock \<Rightarrow> datetime \<Rightarrow> reject_request option \<Rightarrow> reorder_state
     \<Rightarrow> (failure + order) \<times> reorder_state" where
  "reject_order clk oid data s =
     (case pending_orders s oid of
        None \<Rightarrow> (Inl NotFound, s)
      | Some order \<Rightarrow>
          if order_status order \<noteq> PendingApproval then (Inl NotPendingApproval, s)
          else (case data of
                  None \<Rightarrow>
                    (Inl (ServerError AttributeError),
                     s\<lparr>pending_orders :=
                          (pending_orders s)(oid \<mapsto> order\<lparr>order_status := Rejected\<rparr>)\<rparr>)
                | Some d \<Rightarrow>
                    (let rejected = order\<lparr>order_status := Rejected,
                           rejected_by :=
                             Some (case req_rejected_by d of None \<Rightarrow> ''system''
                                   | Some a \<Rightarrow> a),
                           rejected_date := Some (clk (tick s)),
                           rejection_reason :=
                             Some (case req_reason d of None \<Rightarrow> [] | Some n \<Rightarrow> n)\<rparr>
                     in (Inr rejected,
                         s\<lparr>pending_orders := (pending_orders s)(oid \<mapsto> rejected),
                           tick := tick s + 1\<rparr>))))"

text \<open>
  How one evaluation relates a registry entry before and after: \<open>stamped\<close> allows
  the entry to be untouched or, for a firing rule, stamped; \<open>evaluated\<close> says
  which of the two happened.
\<close>

definition stamped :: "clock \<Rightarrow> inventory \<Rightarrow> string \<times> rule \<Rightarrow> string \<times> rule \<Rightarrow> bool" where
  "stamped clk snap a b =
     (fst b = fst a \<and>
      (snd b = snd a \<or>
       (\<exists>k t. rule_fires clk k snap (snd a) \<and>
          snd b = (snd a)\<lparr>last_triggered := Some t,
                          total_triggers := total_triggers (snd a) + 1\<rparr>)))"

definition evaluated :: "clock \<Rightarrow> inventory \<Rightarrow> string \<times> rule \<Rightarrow> string \<times> rule \<Rightarrow> bool" where
  "evaluated clk snap a b =
     (fst b = fst a \<and>
      (\<exists>k. if rule_fires clk k snap (snd a)
           then \<exists>t. snd b = (snd a)\<lparr>last_triggered := Some t,
                               total_triggers := total_triggers (snd a) + 1\<rparr>
           else snd b = snd a))"

section \<open>The forecasting routes (routes/forecasting.py)\<close>

text \<open>
  In this module a request reads the clock a number of times that depends on the
  forecast period only, so the readings are numbered from the start of the request:
  \<open>clk n\<close> is the n-th reading made while the request is handled.

  \<^verbatim>\<open>datetime.fromisoformat\<close> is the standard library's parser. It is a
  parameter \<open>parse\<close> of the model: \<open>None\<close> where it raises
  \<^verbatim>\<open>ValueError\<close>, the naive datetime otherwise.
\<close>

record historical_record =
  date :: string
  demand :: number
  sales :: number
  price :: number
  promotions :: bool
  added_date :: datetime


record forecast =
  fc_product_id :: string
  fc_product_name :: string
  forecast_period_days :: int
  predicted_demand :: number
  confidence_level :: int
  trend_direction :: string
  seasonal_factor :: number
  forecast_breakdown :: "((int \<times> int \<times> int) \<times> number) list"
  model_used :: string
  fc_created_date :: datetime
  valid_until :: datetime
  accuracy_score :: number
  actual_demand :: "number option"
  forecast_error :: "number option"
  percentage_error :: "number option"
  accuracy_updated :: "datetime option"



record historical_request =
  hr_product_id :: "string option"
  hr_date :: "string option"
  hr_demand :: "number option"
  hr_sales :: "number option"
  hr_price :: "number option"
  hr_promotions :: "bool option"


text \<open>
  The module's globals: \<^verbatim>\<open>forecast_data\<close>, a dict whose values are
  read in insertion order, and \<^verbatim>\<open>historical_data\<close>.
\<close>

record forecast_state =
  forecast_data :: "(string \<times> forecast) list"
  historical_data :: "string \<rightharpoonup> historical_record list"



subsection \<open>add_historical_data\<close>

text \<open>
  The test of the list comprehension:
  \<^verbatim>\<open>datetime.fromisoformat(record['date']) > cutoff_date\<close>, for a date
  that parses.
\<close>

definition in_window :: "(string \<Rightarrow> datetime option) \<Rightarrow> datetime \<Rightarrow> historical_record \<Rightarrow> bool" where
  "in_window parse cutoff r = (case parse (date r) of None \<Rightarrow> False | Some t \<Rightarrow> cutoff < t)"

text \<open>
  The list comprehension that keeps the last 365 days parses the date of every record,
  in order, and raises at the first one that does not parse.
\<close>

fun keep_recent ::
  "(string \<Rightarrow> datetime option) \<Rightarrow> datetime \<Rightarrow> historical_record list
     \<Rightarrow> exception + historical_record list" where
  "keep_recent parse cutoff [] = Inr []"
| "keep_recent parse cutoff (r # rs) =
     (case parse (date r) of
        None \<Rightarrow> Inl ValueError
      | Some t \<Rightarrow>
          (case keep_recent parse cutoff rs of
             Inl e \<Rightarrow> Inl e
           | Inr kept \<Rightarrow> Inr (if cutoff < t then r # kept else kept)))"

text \<open>
  The record is appended before the window is computed, so an exception leaves it in
  the series; \<^verbatim>\<open>list.sort\<close> is stable, as \<open>sort_key\<close> is. A success
  returns \<^verbatim>\<open>total_records\<close>.
\<close>

definition add_historical_data ::
  "clock \<Rightarrow> (string \<Rightarrow> datetime option) \<Rightarrow> historical_request option \<Rightarrow> forecast_state
     \<Rightarrow> (failure + nat) \<times> forecast_state" where
  "add_historical_data clk parse data s =
     (case data of
        None \<Rightarrow> (Inl (ServerError TypeError), s)
      | Some d \<Rightarrow>
          (case hr_product_id d of
             None \<Rightarrow> (Inl (MissingField ''product_id''), s)
           | Some pid \<Rightarrow>
               (case hr_date d of
                  None \<Rightarrow> (Inl (MissingField ''date''), s)
                | Some dt \<Rightarrow>
                    (case hr_demand d of
                       None \<Rightarrow> (Inl (MissingField ''demand''), s)
                     | Some dem \<Rightarrow>
                         (let old = (case historical_data s pid of None \<Rightarrow> []
                                     | Some xs \<Rightarrow> xs);
                              record = \<lparr>date = dt, demand = dem,
                                 sales = (case hr_sales d of None \<Rightarrow> 0 | Some x \<Rightarrow> x),
                                 price = (case hr_price d of None \<Rightarrow> 0 | Some x \<Rightarrow> x),
                                 promotions =
                                   (case hr_promotions d of None \<Rightarrow> False | Some b \<Rightarrow> b),
                                 added_date = clk 0\<rparr>;
                              appended = old @ [record];
                              s1 = s\<lparr>historical_data := (historical_data s)(pid \<mapsto> appended)\<rparr>
                          in case plus_days (clk 1) (- 365) of
                               Inl e \<Rightarrow> (Inl (ServerError e), s1)
                             | Inr cutoff \<Rightarrow>
                                 (case keep_recent parse cutoff appended of
                                    Inl e \<Rightarrow> (Inl (ServerError e), s1)
                                  | Inr kept \<Rightarrow>
                                      (Inr (length kept),
                                       s\<lparr>historical_data :=
                                            (historical_data s)
                                              (pid \<mapsto> sort_key date kept)\<rparr>)))))))"

subsection \<open>generate_demand_forecast and create_forecast\<close>









subsection \<open>update_forecast_accuracy and calculate_accuracy_trend\<close>



section \<open>Example data\<close>

text \<open>The inputs at which the theorems below are instantiated.\<close>

definition example_rule :: rule where
  "example_rule =
     \<lparr>rule_id = ''rule_1'', product_id = ''p1'', product_name = Some ''Widget'',
      trigger_type = ''threshold'', trigger_value = 10, reorder_quantity = 1,
      supplier_id = Some ''s1'', max_cost = 0, unit_cost = Some 10,
      approval_required = Some False, approval_threshold = Some 1000,
      lead_time_days = Some 7, safety_stock = 0, seasonal_adjustment = Some True,
      status = ''active'', created_date = 0, last_triggered = None,
      total_triggers = 0\<rparr>"

text \<open>2026-11-03T00:00:00, a Tuesday in November.\<close>

definition example_now :: datetime where
  "example_now = 20760 * 86400000000"

definition empty_reorder_state :: reorder_state where
  "empty_reorder_state = \<lparr>reorder_rules = [], pending_orders = Map.empty, tick = 0\<rparr>"

text \<open>
  A time-based rule for every 30 days that last triggered 10 days before
  \<open>example_now\<close>.
\<close>

definition waiting_rule :: rule where
  "waiting_rule =
     example_rule\<lparr>rule_id := ''rule_3'', trigger_type := ''time_based'',
                   trigger_value := 30, last_triggered := Some (20750 * 86400000000)\<rparr>"

definition example_state :: reorder_state where
  "example_state =
     \<lparr>reorder_rules =
        [(''rule_1'', example_rule),
         (''rule_2'', example_rule\<lparr>rule_id := ''rule_2'', status := ''inactive''\<rparr>),
         (''rule_3'', waiting_rule)],
      pending_orders = Map.empty, tick = 0\<rparr>"

definition example_delivery :: datetime where
  "example_delivery = 20767 * 86400000000"

definition example_order :: order where
  "example_order =
     \<lparr>order_id = example_now, order_rule_id = ''rule_1'',
      order_product_id = ''p1'', order_product_name = ''Widget'',
      order_supplier_id = ''s1'', quantity = 1, estimated_cost = 10,
      trigger_reason = StockBelowThreshold 0 10,
      order_status = SentToSupplier, order_created_date = example_now,
      expected_delivery = 20767 * 86400000000, order_priority = Medium,
      sent_date = Some example_now, approved_by = None, approved_date = None,
      approval_notes = None, rejected_by = None, rejected_date = None,
      rejection_reason = None\<rparr>"

definition pending_order :: order where
  "pending_order = example_order\<lparr>order_status := PendingApproval, sent_date := None\<rparr>"

definition pending_state :: reorder_state where
  "pending_state =
     \<lparr>reorder_rules = [], pending_orders = [example_now \<mapsto> pending_order], tick = 0\<rparr>"

definition rejected_order :: order where
  "rejected_order =
     pending_order\<lparr>order_status := Rejected, rejected_by := Some ''system'',
                   rejected_date := Some example_now, rejection_reason := Some []\<rparr>"






definition day_record :: "string \<Rightarrow> number \<Rightarrow> historical_record" where
  "day_record dt dem =
     \<lparr>date = dt, demand = dem, sales = 0, price = 0, promotions = False,
      added_date = example_now\<rparr>"

text \<open>\<^verbatim>\<open>fromisoformat\<close> on the one date text of the examples.\<close>

definition example_parse :: "string \<Rightarrow> datetime option" where
  "example_parse text = (if text = ''2026-11-01'' then Some (20758 * 86400000000) else None)"

definition day_request :: "number \<Rightarrow> historical_request" where
  "day_request dem =
     \<lparr>hr_product_id = Some ''p1'', hr_date = Some ''2026-11-01'', hr_demand = Some dem,
      hr_sales = None, hr_price = None, hr_promotions = None\<rparr>"

definition no_history :: forecast_state where
  "no_history = \<lparr>forecast_data = [], historical_data = Map.empty\<rparr>"





section \<open>Order creation and the approval policy\<close>

lemma create_reorder_result:
  assumes "create_reorder clk rule qty reason s = (Inr order, s')"
  shows "order_status order =
           (if requires_approval rule
                 (qty * (case unit_cost rule of None \<Rightarrow> 0 | Some c \<Rightarrow> c))
            then PendingApproval else SentToSupplier)"
    and "pending_orders s' (order_id order) = Some order"
    and "quantity order = qty"
  using assms
  by (auto simp: create_reorder_def Let_def send_order_to_supplier_def
           split: sum.splits if_splits)

lemma create_reorder_returns:
  assumes "plus_days (clk (tick s + 2))
             (case lead_time_days rule of None \<Rightarrow> 7 | Some n \<Rightarrow> n) = Inr delivery"
  shows "\<exists>order s'. create_reorder clk rule qty reason s = (Inr order, s') \<and>
           quantity order = qty \<and>
           estimated_cost order = qty * (case unit_cost rule of None \<Rightarrow> 0 | Some c \<Rightarrow> c) \<and>
           expected_delivery order = delivery"
  using assms
  by (simp add: create_reorder_def Let_def send_order_to_supplier_def)

lemma create_reorder_raises:
  assumes "plus_days (clk (tick s + 2))
             (case lead_time_days rule of None \<Rightarrow> 7 | Some n \<Rightarrow> n) = Inl e"
  shows "create_reorder clk rule qty reason s = (Inl e, s\<lparr>tick := tick s + 3\<rparr>)"
  using assms by (simp add: create_reorder_def Let_def)

text \<open>
  Claim C1. \<^verbatim>\<open>create_reorder\<close> returns an order for every rule and
  quantity whose delivery date exists (otherwise the date arithmetic raises before
  anything is stored). For that order approval is required exactly when the rule's
  \<^verbatim>\<open>approval_required\<close> is set or quantity times unit cost (0 when unset)
  exceeds the approval threshold (1000 when unset); the order returned, which is the one
  stored, is \<^verbatim>\<open>pending_approval\<close> exactly when approval is required and is
  otherwise already \<^verbatim>\<open>sent_to_supplier\<close>; so a rule without
  \<^verbatim>\<open>approval_required\<close> whose cost is at most the threshold never gives a
  pending order.
\<close>

theorem create_reorder_approval_policy:
  assumes "plus_days (clk (tick s + 2))
             (case lead_time_days rule of None \<Rightarrow> 7 | Some n \<Rightarrow> n) = Inr delivery"
  shows "\<exists>order s'.
           create_reorder clk rule qty reason s = (Inr order, s') \<and>
           estimated_cost order = qty * (case unit_cost rule of None \<Rightarrow> 0 | Some c \<Rightarrow> c) \<and>
           (order_status order = PendingApproval \<longleftrightarrow>
              (approval_required rule = Some True \<or>
               (case approval_threshold rule of None \<Rightarrow> 1000 | Some a \<Rightarrow> a)
                 < qty * (case unit_cost rule of None \<Rightarrow> 0 | Some c \<Rightarrow> c))) \<and>
           (order_status order \<noteq> PendingApproval \<longrightarrow> order_status order = SentToSupplier) \<and>
           pending_orders s' (order_id order) = Some order \<and>
           (approval_required rule \<noteq> Some True \<and>
            qty * (case unit_cost rule of None \<Rightarrow> 0 | Some c \<Rightarrow> c)
              \<le> (case approval_threshold rule of None \<Rightarrow> 1000 | Some a \<Rightarrow> a)
            \<longrightarrow> order_status order \<noteq> PendingApproval)"
proof -
  let ?cost = "qty * (case unit_cost rule of None \<Rightarrow> 0 | Some c \<Rightarrow> c)"
  from create_reorder_returns[where clk = clk and s = s and rule = rule, OF assms]
  obtain order s' where
    eq: "create_reorder clk rule qty reason s = (Inr order, s')"
    and cost: "estimated_cost order = ?cost"
    by blast
  have req: "requires_approval rule ?cost \<longleftrightarrow>
               (approval_required rule = Some True \<or>
                (case approval_threshold rule of None \<Rightarrow> 1000 | Some a \<Rightarrow> a) < ?cost)"
    by (auto simp: requires_approval_def split: option.splits)
  have st: "order_status order =
              (if requires_approval rule ?cost then PendingApproval else SentToSupplier)"
    by (rule create_reorder_result(1)[OF eq])
  have stored: "pending_orders s' (order_id order) = Some order"
    by (rule create_reorder_result(2)[OF eq])
  have "(order_status order = PendingApproval \<longleftrightarrow>
              (approval_required rule = Some True \<or>
               (case approval_threshold rule of None \<Rightarrow> 1000 | Some a \<Rightarrow> a) < ?cost)) \<and>
        (order_status order \<noteq> PendingApproval \<longrightarrow> order_status order = SentToSupplier) \<and>
        (approval_required rule \<noteq> Some True \<and>
            ?cost \<le> (case approval_threshold rule of None \<Rightarrow> 1000 | Some a \<Rightarrow> a)
            \<longrightarrow> order_status order \<noteq> PendingApproval)"
    using req st by (auto split: if_splits)
  with eq cost stored show ?thesis by blast
qed

lemma delivery_example:
  "plus_days example_now (case lead_time_days example_rule of None \<Rightarrow> 7 | Some n \<Rightarrow> n)
     = Inr example_delivery"
  by (simp add: plus_days_def example_now_def example_rule_def example_delivery_def
        day_us_def dt_min_def dt_max_def Let_def)

theorem create_reorder_approval_policy_witness:
  "(\<exists>order s'.
      create_reorder (\<lambda>n. example_now) example_rule 200 ManualTrigger empty_reorder_state
        = (Inr order, s') \<and>
      estimated_cost order = 2000 \<and> order_status order = PendingApproval \<and>
      pending_orders s' (order_id order) = Some order) \<and>
   (\<exists>order s'.
      create_reorder (\<lambda>n. example_now) example_rule 5 ManualTrigger empty_reorder_state
        = (Inr order, s') \<and>
      estimated_cost order = 50 \<and> order_status order = SentToSupplier \<and>
      pending_orders s' (order_id order) = Some order)"
proof -
  have cost: "unit_cost example_rule = Some 10"
    and thr: "approval_threshold example_rule = Some 1000"
    and req: "approval_required example_rule = Some False"
    by (simp_all add: example_rule_def)
  have big: "\<exists>order s'.
      create_reorder (\<lambda>n. example_now) example_rule 200 ManualTrigger empty_reorder_state
        = (Inr order, s') \<and>
      estimated_cost order = 2000 \<and> order_status order = PendingApproval \<and>
      pending_orders s' (order_id order) = Some order"
    using create_reorder_approval_policy[of "\<lambda>n. example_now" empty_reorder_state
        example_rule example_delivery 200 ManualTrigger, OF delivery_example]
    by (auto simp: cost thr req)
  have small: "\<exists>order s'.
      create_reorder (\<lambda>n. example_now) example_rule 5 ManualTrigger empty_reorder_state
        = (Inr order, s') \<and>
      estimated_cost order = 50 \<and> order_status order = SentToSupplier \<and>
      pending_orders s' (order_id order) = Some order"
    using create_reorder_approval_policy[of "\<lambda>n. example_now" empty_reorder_state
        example_rule example_delivery 5 ManualTrigger, OF delivery_example]
    by (auto simp: cost thr req)
  from big small show ?thesis by blast
qed

section \<open>Trigger evaluation\<close>

lemma process_rule_inactive:
  "status r \<noteq> ''active'' \<Longrightarrow> process_rule clk snap r s = (Inr (r, None), s)"
  by (simp add: process_rule_def)

lemma process_rule_quiet:
  "status r = ''active'' \<Longrightarrow> should_trigger clk (tick s) snap r = None \<Longrightarrow>
     process_rule clk snap r s = (Inr (r, None), s\<lparr>tick := tick s + trigger_reads r\<rparr>)"
  by (simp add: process_rule_def)

lemma process_rule_fired:
  assumes "status r = ''active''" and "should_trigger clk (tick s) snap r = Some reason"
  shows "process_rule clk snap r s =
     (case reorder_qty clk (tick s + trigger_reads r) r of
        Inl e \<Rightarrow> (Inl e, s\<lparr>tick := tick s + trigger_reads r + qty_reads r\<rparr>)
      | Inr qty \<Rightarrow>
          (case create_reorder clk r qty reason
                  (s\<lparr>tick := tick s + trigger_reads r + qty_reads r\<rparr>) of
             (Inl e, s') \<Rightarrow> (Inl e, s')
           | (Inr order, s') \<Rightarrow>
               (Inr (r\<lparr>last_triggered := Some (clk (tick s')),
                        total_triggers := total_triggers r + 1\<rparr>, Some order),
                s'\<lparr>tick := Suc (tick s')\<rparr>)))"
  using assms by (simp add: process_rule_def Let_def)

lemma process_rule_cases:
  assumes "process_rule clk snap r s = (res, s')"
  shows "(\<exists>e. res = Inl e \<and> rule_fires clk (tick s) snap r) \<or>
         (res = Inr (r, None) \<and> \<not> rule_fires clk (tick s) snap r) \<or>
         (\<exists>order t. res = Inr (r\<lparr>last_triggered := Some t,
                                    total_triggers := total_triggers r + 1\<rparr>, Some order) \<and>
            rule_fires clk (tick s) snap r \<and>
            reorder_qty clk (tick s + trigger_reads r) r = Inr (quantity order))"
proof (cases "status r = ''active''")
  case False
  with assms show ?thesis
    by (simp add: process_rule_inactive rule_fires_def)
next
  case active: True
  show ?thesis
  proof (cases "should_trigger clk (tick s) snap r")
    case None
    with assms active show ?thesis
      by (simp add: process_rule_quiet rule_fires_def)
  next
    case (Some reason)
    have fires: "rule_fires clk (tick s) snap r"
      using active Some by (simp add: rule_fires_def)
    show ?thesis
    proof (cases "reorder_qty clk (tick s + trigger_reads r) r")
      case (Inl e)
      with assms fires show ?thesis
        by (auto simp add: process_rule_fired[OF active Some])
    next
      case qty: (Inr qty)
      obtain cres cs where cr: "create_reorder clk r qty reason
          (s\<lparr>tick := tick s + trigger_reads r + qty_reads r\<rparr>) = (cres, cs)"
        by (cases "create_reorder clk r qty reason
          (s\<lparr>tick := tick s + trigger_reads r + qty_reads r\<rparr>)")
      show ?thesis
      proof (cases cres)
        case (Inl e)
        with assms cr fires qty show ?thesis
          by (auto simp add: process_rule_fired[OF active Some])
      next
        case (Inr order)
        have "quantity order = qty"
          using create_reorder_result(3) cr Inr by blast
        with assms cr fires qty Inr show ?thesis
          by (auto simp add: process_rule_fired[OF active Some])
      qed
    qed
  qed
qed

lemma stamped_refl: "list_all2 (stamped clk snap) xs xs"
  by (simp add: list_all2_refl stamped_def)

lemma check_rules_stamped:
  "check_rules clk snap rules s = (res, rules', s') \<Longrightarrow>
     list_all2 (stamped clk snap) rules rules'"
proof (induction rules arbitrary: s res rules' s')
  case Nil
  then show ?case by simp
next
  case (Cons a rules)
  obtain rid r where a: "a = (rid, r)" by (cases a)
  obtain pres ps where pr: "process_rule clk snap r s = (pres, ps)"
    by (cases "process_rule clk snap r s")
  show ?case
  proof (cases pres)
    case (Inl e)
    with Cons.prems a pr have "rules' = a # rules"
      by simp
    then show ?thesis by (simp only: stamped_refl)
  next
    case (Inr p)
    obtain r' fired where p: "p = (r', fired)" by (cases p)
    obtain res2 rest2 s2 where rec: "check_rules clk snap rules ps = (res2, rest2, s2)"
      by (cases "check_rules clk snap rules ps")
    have tail: "list_all2 (stamped clk snap) rules rest2"
      by (rule Cons.IH[OF rec])
    have rules': "rules' = (rid, r') # rest2"
      using Cons.prems a pr Inr p rec by (auto split: sum.splits)
    have head: "stamped clk snap (rid, r) (rid, r')"
      using process_rule_cases[OF pr] Inr p
      by (auto simp: stamped_def)
    show ?thesis using a rules' head tail by simp
  qed
qed

lemma check_rules_evaluated:
  "check_rules clk snap rules s = (Inr orders, rules', s') \<Longrightarrow>
     list_all2 (evaluated clk snap) rules rules'"
proof (induction rules arbitrary: s orders rules' s')
  case Nil
  then show ?case by simp
next
  case (Cons a rules)
  obtain rid r where a: "a = (rid, r)" by (cases a)
  obtain pres ps where pr: "process_rule clk snap r s = (pres, ps)"
    by (cases "process_rule clk snap r s")
  show ?case
  proof (cases pres)
    case (Inl e)
    with Cons.prems a pr show ?thesis by simp
  next
    case (Inr p)
    obtain r' fired where p: "p = (r', fired)" by (cases p)
    obtain res2 rest2 s2 where rec: "check_rules clk snap rules ps = (res2, rest2, s2)"
      by (cases "check_rules clk snap rules ps")
    obtain orders2 where res2: "res2 = Inr orders2"
      using Cons.prems a pr Inr p rec by (cases res2) auto
    have tail: "list_all2 (evaluated clk snap) rules rest2"
      using Cons.IH rec res2 by blast
    have rules': "rules' = (rid, r') # rest2"
      using Cons.prems a pr Inr p rec res2 by auto
    have head: "evaluated clk snap (rid, r) (rid, r')"
      using process_rule_cases[OF pr] Inr p
      by (auto simp: evaluated_def intro: exI[of _ "tick s"])
    show ?thesis using a rules' head tail by simp
  qed
qed

lemma check_rules_at:
  "check_rules clk snap rules s = (Inr orders, rules', s') \<Longrightarrow> i < length rules \<Longrightarrow>
     \<exists>oi si fired si'.
        check_rules clk snap (take i rules) s = (Inr oi, take i rules', si) \<and>
        process_rule clk snap (snd (rules ! i)) si = (Inr (snd (rules' ! i), fired), si')"
proof (induction rules arbitrary: s orders rules' s' i)
  case Nil
  then show ?case by simp
next
  case (Cons a rules)
  obtain rid r where a: "a = (rid, r)" by (cases a)
  obtain pres ps where pr: "process_rule clk snap r s = (pres, ps)"
    by (cases "process_rule clk snap r s")
  obtain r' fired where pres: "pres = Inr (r', fired)"
    using Cons.prems(1) a pr by (cases pres) auto
  obtain res2 rest2 s2 where rec: "check_rules clk snap rules ps = (res2, rest2, s2)"
    by (cases "check_rules clk snap rules ps")
  obtain orders2 where res2: "res2 = Inr orders2"
    using Cons.prems(1) a pr pres rec by (cases res2) auto
  have rules': "rules' = (rid, r') # rest2"
    using Cons.prems(1) a pr pres rec res2 by auto
  show ?case
  proof (cases i)
    case 0
    then show ?thesis
      using a pr pres rules' by simp
  next
    case (Suc j)
    then have "j < length rules"
      using Cons.prems(2) by simp
    from Cons.IH[OF rec[unfolded res2] this] obtain oj sj firedj sj' where
      pre: "check_rules clk snap (take j rules) ps = (Inr oj, take j rest2, sj)"
      and at: "process_rule clk snap (snd (rules ! j)) sj = (Inr (snd (rest2 ! j), firedj), sj')"
      by blast
    show ?thesis
      using Suc a pr pres rules' pre at by simp
  qed
qed


lemma seasonal_iff: "seasonal r \<longleftrightarrow> seasonal_adjustment r = Some True"
  by (simp add: seasonal_def split: option.splits)

lemma month_example_now: "month example_now = 11"
  by code_simp

lemma double_one: "to_double 1 = Some 1"
  by code_simp

lemma double_three_halves: "to_double (3 / 2) = Some (3 / 2)"
  by code_simp

lemma floor_three_halves: "\<lfloor>3 / 2 :: rat\<rfloor> = 1"
  by code_simp

lemma double_large: "to_double 9007199254740993 = Some 9007199254740992"
  by code_simp

lemma double_large_product: "to_double (9007199254740992 * (3 / 2)) = Some 13510798882111488"
  by code_simp

lemma qty_example: "reorder_qty (\<lambda>n. example_now) 0 example_rule = Inr 1"
  by (simp add: reorder_qty_def seasonal_def month_example_now example_rule_def
        double_one double_three_halves py_int_def floor_three_halves)

lemma qty_large:
  "reorder_qty (\<lambda>n. example_now) 0 (example_rule\<lparr>reorder_quantity := 9007199254740993\<rparr>)
     = Inr 13510798882111488"
  using double_large_product
  by (simp add: reorder_qty_def seasonal_def month_example_now example_rule_def
        double_large py_int_def)

lemma process_example:
  "process_rule (\<lambda>n. example_now) Map.empty example_rule example_state =
     (Inr (example_rule\<lparr>last_triggered := Some example_now, total_triggers := 1\<rparr>,
           Some example_order),
      example_state\<lparr>pending_orders := [example_now \<mapsto> example_order], tick := 6\<rparr>)"
proof -
  have fire: "should_trigger (\<lambda>n. example_now) (tick example_state) Map.empty example_rule
                = Some (StockBelowThreshold 0 10)"
    by (simp add: should_trigger_def stock_level_def example_rule_def)
  have active: "status example_rule = ''active''"
    by (simp add: example_rule_def)
  have reads: "trigger_reads example_rule = 0" "qty_reads example_rule = 1"
    by (simp_all add: trigger_reads_def qty_reads_def seasonal_def example_rule_def)
  have t0: "tick example_state = 0"
    by (simp add: example_state_def)
  show ?thesis
    unfolding process_rule_fired[OF active fire] reads t0
    by (simp add: qty_example)
       (simp add: create_reorder_def requires_approval_def send_order_to_supplier_def
          plus_days_def day_us_def dt_min_def dt_max_def Let_def
          example_rule_def example_state_def example_order_def example_now_def)
qed

lemma rules_example:
  "reorder_rules example_state =
     [(''rule_1'', example_rule),
      (''rule_2'', example_rule\<lparr>rule_id := ''rule_2'', status := ''inactive''\<rparr>),
      (''rule_3'', waiting_rule)]"
  by (simp add: example_state_def)

lemma waiting_example:
  "process_rule (\<lambda>n. example_now) Map.empty waiting_rule
       (example_state\<lparr>pending_orders := [example_now \<mapsto> example_order], tick := 6\<rparr>) =
     (Inr (waiting_rule, None),
      example_state\<lparr>pending_orders := [example_now \<mapsto> example_order], tick := 7\<rparr>)"
  by (simp add: process_rule_def should_trigger_def trigger_reads_def waiting_rule_def
        example_rule_def example_now_def day_us_def)

lemma check_example:
  "check_reorder_triggers (\<lambda>n. example_now) (Some \<lparr>inventory_data = None\<rparr>) example_state =
     (Inr [example_order],
      \<lparr>reorder_rules =
         [(''rule_1'', example_rule\<lparr>last_triggered := Some example_now,
                                     total_triggers := 1\<rparr>),
          (''rule_2'', example_rule\<lparr>rule_id := ''rule_2'', status := ''inactive''\<rparr>),
          (''rule_3'', waiting_rule)],
       pending_orders = [example_now \<mapsto> example_order], tick = 7\<rparr>)"
  by (simp add: check_reorder_triggers_def snapshot_def rules_example process_example
        process_rule_inactive waiting_example)

subsection \<open>Seasonal quantity\<close>

text \<open>
  Claim C2 as stated, that in November, December and January a seasonal rule's quantity is 1.5
  times \<^verbatim>\<open>reorder_quantity\<close> rounded to an integer (round, not
  truncate) fails: \<^verbatim>\<open>int(reorder_qty * 1.5)\<close> truncates. A rule with
  \<^verbatim>\<open>reorder_quantity\<close> 1 evaluated on 2026-11-03 orders 1, while 1.5
  rounds to 2.
\<close>

theorem seasonal_quantity_counterexample:
  "map_option quantity
     (snd (projr (fst (process_rule (\<lambda>n. example_now) Map.empty example_rule
                         example_state)))) = Some 1 \<and>
   seasonal_adjustment example_rule = Some True \<and>
   month example_now = 11 \<and>
   round_half_even (reorder_quantity example_rule * (3 / 2)) = 2"
proof -
  have "round_half_even (reorder_quantity example_rule * (3 / 2)) = 2"
    by (simp add: example_rule_def round_half_even_def floor_three_halves Let_def)
  then show ?thesis
    by (simp add: process_example month_example_now)
      (simp add: example_rule_def example_order_def)
qed

text \<open>
  Claim C2, as the code has it. The order created for a fired rule has the quantity
  \<^verbatim>\<open>reorder_quantity\<close> unchanged unless
  \<^verbatim>\<open>seasonal_adjustment\<close> is set and the month read from the clock is
  November, December or January; then the quantity is the product of
  \<^verbatim>\<open>reorder_quantity\<close> and 1.5 as doubles, truncated towards zero.
  For 9007199254740993 that is 13510798882111488.
\<close>

theorem seasonal_quantity_truncated:
  assumes "process_rule clk snap r s = (Inr (r', Some order), s')"
  shows "if seasonal_adjustment r = Some True \<and>
            month (clk (tick s + trigger_reads r)) \<in> {11, 12, 1}
         then \<exists>q p. to_double (reorder_quantity r) = Some q \<and>
                 to_double (q * (3 / 2)) = Some p \<and>
                 quantity order = (if 0 \<le> p then of_int \<lfloor>p\<rfloor> else of_int \<lceil>p\<rceil>)
         else quantity order = reorder_quantity r"
proof -
  have "reorder_qty clk (tick s + trigger_reads r) r = Inr (quantity order)"
    using process_rule_cases[OF assms] by auto
  then show ?thesis
    by (auto simp: reorder_qty_def seasonal_iff py_int_def split: option.splits if_splits)
qed

theorem seasonal_quantity_truncated_witness:
  "quantity
     (the (snd (projr (fst (process_rule (\<lambda>n. example_now) Map.empty example_rule
                         example_state))))) = of_int \<lfloor>3 / 2 :: rat\<rfloor> \<and>
   reorder_qty (\<lambda>n. example_now) 0 (example_rule\<lparr>reorder_quantity := 9007199254740993\<rparr>)
     = Inr 13510798882111488"
  using seasonal_quantity_truncated[OF process_example] qty_large
  by (simp add: month_example_now process_example)
    (simp add: example_rule_def example_order_def floor_three_halves)

subsection \<open>A product missing from the snapshot\<close>

text \<open>
  Claim C9. For a threshold rule whose product is absent from the snapshot the stock is
  taken as 0: the trigger test gives what it gives for a snapshot entry with
  \<^verbatim>\<open>current_stock\<close> 0, and an active rule fires exactly when its
  \<^verbatim>\<open>trigger_value\<close> is not negative.
\<close>

theorem missing_snapshot_entry_is_zero_stock:
  assumes "trigger_type r = ''threshold''" and "snap (product_id r) = None"
  shows "should_trigger clk k snap r =
           (if 0 \<le> trigger_value r
            then Some (StockBelowThreshold 0 (trigger_value r)) else None) \<and>
         should_trigger clk k snap r =
           should_trigger clk k
             (snap(product_id r \<mapsto> \<lparr>current_stock = Some 0, demand_forecast = f\<rparr>)) r \<and>
         (status r = ''active'' \<longrightarrow>
            (rule_fires clk k snap r \<longleftrightarrow> 0 \<le> trigger_value r)) \<and>
         (status r = ''active'' \<and> trigger_value r < 0 \<longrightarrow>
            process_rule clk snap r s = (Inr (r, None), s)) \<and>
         (status r = ''active'' \<and> 0 \<le> trigger_value r \<longrightarrow>
            fst (process_rule clk snap r s) \<noteq> Inr (r, None))"
proof -
  have st: "should_trigger clk k snap r =
           (if 0 \<le> trigger_value r
            then Some (StockBelowThreshold 0 (trigger_value r)) else None)" for k
    using assms by (simp add: should_trigger_def stock_level_def)
  have same: "should_trigger clk k snap r =
           should_trigger clk k
             (snap(product_id r \<mapsto> \<lparr>current_stock = Some 0, demand_forecast = f\<rparr>)) r"
    using assms by (simp add: should_trigger_def stock_level_def)
  have quiet: "process_rule clk snap r s = (Inr (r, None), s)"
    if "status r = ''active''" "trigger_value r < 0"
    using that assms st[of "tick s"]
    by (simp add: process_rule_quiet trigger_reads_def)
  have loud: "fst (process_rule clk snap r s) \<noteq> Inr (r, None)"
    if "status r = ''active''" "0 \<le> trigger_value r"
  proof -
    have f: "rule_fires clk (tick s) snap r"
      using that st[of "tick s"] by (simp add: rule_fires_def)
    obtain res s' where pr: "process_rule clk snap r s = (res, s')"
      by (cases "process_rule clk snap r s")
    from process_rule_cases[OF pr] f show ?thesis
      using pr by auto
  qed
  have fires: "status r = ''active'' \<longrightarrow>
            (rule_fires clk k snap r \<longleftrightarrow> 0 \<le> trigger_value r)"
    using st[of k] by (simp add: rule_fires_def)
  show ?thesis
  proof (intro conjI)
    show "should_trigger clk k snap r =
           (if 0 \<le> trigger_value r
            then Some (StockBelowThreshold 0 (trigger_value r)) else None)"
      by (rule st)
    show "should_trigger clk k snap r =
           should_trigger clk k
             (snap(product_id r \<mapsto> \<lparr>current_stock = Some 0, demand_forecast = f\<rparr>)) r"
      by (rule same)
    show "status r = ''active'' \<longrightarrow>
            (rule_fires clk k snap r \<longleftrightarrow> 0 \<le> trigger_value r)"
      by (rule fires)
    show "status r = ''active'' \<and> trigger_value r < 0 \<longrightarrow>
            process_rule clk snap r s = (Inr (r, None), s)"
      using quiet by blast
    show "status r = ''active'' \<and> 0 \<le> trigger_value r \<longrightarrow>
            fst (process_rule clk snap r s) \<noteq> Inr (r, None)"
      using loud by blast
  qed
qed

theorem missing_snapshot_entry_is_zero_stock_witness:
  "should_trigger (\<lambda>n. example_now) 0 Map.empty example_rule
     = Some (StockBelowThreshold 0 10) \<and>
   rule_fires (\<lambda>n. example_now) 0 Map.empty example_rule"
  using missing_snapshot_entry_is_zero_stock[of example_rule Map.empty "\<lambda>n. example_now" 0]
  by (simp add: example_rule_def)

subsection \<open>What evaluation changes in a rule\<close>

text \<open>
  Claim C10. One call of \<^verbatim>\<open>check_reorder_triggers\<close> changes no rule
  when the body is \<^verbatim>\<open>null\<close>, and otherwise keeps the registry's
  entries in place; each rule is left as it was or, if it fires, differs only by a new
  \<^verbatim>\<open>last_triggered\<close> and by \<^verbatim>\<open>total_triggers\<close>
  raised by 1. When the call succeeds, the rule at position \<open>i\<close> is tested when
  the loop over the \<open>i\<close> rules before it has made its clock readings; it is
  changed in this way if it fires at that reading and is left unchanged if it does not.
\<close>

theorem check_reorder_triggers_frame:
  assumes "check_reorder_triggers clk (Some d) s = (res, s')"
  shows "snd (check_reorder_triggers clk None s) = s \<and>
         length (reorder_rules s') = length (reorder_rules s) \<and>
         (\<forall>i < length (reorder_rules s).
            fst (reorder_rules s' ! i) = fst (reorder_rules s ! i) \<and>
            (snd (reorder_rules s' ! i) = snd (reorder_rules s ! i) \<or>
             (\<exists>k t. rule_fires clk k (snapshot d) (snd (reorder_rules s ! i)) \<and>
                snd (reorder_rules s' ! i) =
                  (snd (reorder_rules s ! i))
                    \<lparr>last_triggered := Some t,
                     total_triggers := total_triggers (snd (reorder_rules s ! i)) + 1\<rparr>))) \<and>
         (\<forall>orders. res = Inr orders \<longrightarrow>
            (\<forall>i < length (reorder_rules s).
               if rule_fires clk
                    (tick (snd (snd (check_rules clk (snapshot d)
                                       (take i (reorder_rules s)) s))))
                    (snapshot d) (snd (reorder_rules s ! i))
               then \<exists>t. snd (reorder_rules s' ! i) =
                      (snd (reorder_rules s ! i))
                        \<lparr>last_triggered := Some t,
                         total_triggers :=
                           total_triggers (snd (reorder_rules s ! i)) + 1\<rparr>
               else snd (reorder_rules s' ! i) = snd (reorder_rules s ! i)))"
proof -
  obtain cres rules' cs where
    cr: "check_rules clk (snapshot d) (reorder_rules s) s = (cres, rules', cs)"
    by (cases "check_rules clk (snapshot d) (reorder_rules s) s")
  have rules: "reorder_rules s' = rules'"
    using assms cr by (auto simp: check_reorder_triggers_def split: sum.splits)
  have st: "list_all2 (stamped clk (snapshot d)) (reorder_rules s) rules'"
    by (rule check_rules_stamped[OF cr])
  have len: "length (reorder_rules s') = length (reorder_rules s)"
    using st rules by (simp add: list_all2_lengthD)
  have frame: "\<forall>i < length (reorder_rules s).
      stamped clk (snapshot d) (reorder_rules s ! i) (reorder_rules s' ! i)"
    using st rules by (simp add: list_all2_conv_all_nth)
  have ok: "if rule_fires clk
                 (tick (snd (snd (check_rules clk (snapshot d) (take i (reorder_rules s)) s))))
                 (snapshot d) (snd (reorder_rules s ! i))
            then \<exists>t. snd (reorder_rules s' ! i) =
                   (snd (reorder_rules s ! i))
                     \<lparr>last_triggered := Some t,
                      total_triggers := total_triggers (snd (reorder_rules s ! i)) + 1\<rparr>
            else snd (reorder_rules s' ! i) = snd (reorder_rules s ! i)"
    if "res = Inr orders" and "i < length (reorder_rules s)" for orders i
  proof -
    have "cres = Inr orders"
      using assms cr that(1) by (auto simp: check_reorder_triggers_def split: sum.splits)
    from check_rules_at[OF cr[unfolded this] that(2)] obtain oi si fired si' where
      pre: "check_rules clk (snapshot d) (take i (reorder_rules s)) s
              = (Inr oi, take i rules', si)"
      and at: "process_rule clk (snapshot d) (snd (reorder_rules s ! i)) si
              = (Inr (snd (rules' ! i), fired), si')"
      by blast
    have k: "tick (snd (snd (check_rules clk (snapshot d) (take i (reorder_rules s)) s)))
               = tick si"
      by (simp add: pre)
    from process_rule_cases[OF at] show ?thesis
      unfolding k rules by auto
  qed
  have null: "snd (check_reorder_triggers clk None s) = s"
    by (simp add: check_reorder_triggers_def)
  show ?thesis
    using null len frame ok unfolding stamped_def by blast
qed

lemma prefix_example:
  "tick (snd (snd (check_rules (\<lambda>n. example_now) Map.empty
                     (take 2 (reorder_rules example_state)) example_state))) = 6"
  by (simp add: rules_example process_example process_rule_inactive)

theorem check_reorder_triggers_frame_witness:
  "length (reorder_rules example_state) = 3 \<and>
   snd (reorder_rules (snd (check_reorder_triggers (\<lambda>n. example_now)
          (Some \<lparr>inventory_data = None\<rparr>) example_state)) ! 0)
     = example_rule\<lparr>last_triggered := Some example_now, total_triggers := 1\<rparr> \<and>
   snd (reorder_rules (snd (check_reorder_triggers (\<lambda>n. example_now)
          (Some \<lparr>inventory_data = None\<rparr>) example_state)) ! 1)
     = snd (reorder_rules example_state ! 1) \<and>
   \<not> rule_fires (\<lambda>n. example_now) 6 Map.empty waiting_rule \<and>
   snd (reorder_rules (snd (check_reorder_triggers (\<lambda>n. example_now)
          (Some \<lparr>inventory_data = None\<rparr>) example_state)) ! 2)
     = waiting_rule"
proof -
  have quiet: "\<not> rule_fires (\<lambda>n. example_now) 6 Map.empty waiting_rule"
    by (simp add: rule_fires_def should_trigger_def waiting_rule_def example_rule_def
          example_now_def day_us_def)
  have third: "snd (reorder_rules example_state ! 2) = waiting_rule"
    by (simp add: rules_example)
  have "snd (reorder_rules (snd (check_reorder_triggers (\<lambda>n. example_now)
          (Some \<lparr>inventory_data = None\<rparr>) example_state)) ! 2) = waiting_rule"
    using check_reorder_triggers_frame[OF check_example] quiet prefix_example third
    by (simp add: snapshot_def rules_example check_example)
  then show ?thesis
    using quiet by (simp add: check_example rules_example)
qed

section \<open>Approval and rejection\<close>

text \<open>
  Claim C4. For an order in the store, \<^verbatim>\<open>approve_order\<close> and
  \<^verbatim>\<open>reject_order\<close> answer that the order is not pending approval, and
  change nothing, when its status is not \<^verbatim>\<open>pending_approval\<close>, and
  never give that answer when it is. A pending order is approved by any request with a
  body, and rejected by any such request. A successful approval sets the status to
  \<^verbatim>\<open>approved\<close> and then sends the order to the supplier, so it ends
  as \<^verbatim>\<open>sent_to_supplier\<close>; a successful rejection ends as
  \<^verbatim>\<open>rejected\<close>, after which an approval is refused as not pending.
\<close>

theorem approval_lifecycle:
  "(pending_orders s oid = Some order \<and> order_status order \<noteq> PendingApproval \<longrightarrow>
      approve_order clk oid adata s = (Inl NotPendingApproval, s) \<and>
      reject_order clk oid rdata s = (Inl NotPendingApproval, s)) \<and>
   (pending_orders s oid = Some order \<and> order_status order = PendingApproval \<longrightarrow>
      fst (approve_order clk oid adata s) \<noteq> Inl NotPendingApproval \<and>
      fst (reject_order clk oid rdata s) \<noteq> Inl NotPendingApproval) \<and>
   (pending_orders s oid = Some order \<and> order_status order = PendingApproval \<longrightarrow>
      (\<exists>sent s1. approve_order clk oid (Some ad) s = (Inr sent, s1) \<and>
         order_status sent = SentToSupplier \<and> pending_orders s1 oid = Some sent) \<and>
      (\<exists>rejected s1. reject_order clk oid (Some rd) s = (Inr rejected, s1) \<and>
         order_status rejected = Rejected \<and> pending_orders s1 oid = Some rejected)) \<and>
   (approve_order clk oid adata s = (Inr order', s') \<longrightarrow>
      (\<exists>pending d. pending_orders s oid = Some pending \<and>
         order_status pending = PendingApproval \<and> adata = Some d \<and>
         order' = send_order_to_supplier clk (tick s + 1)
                    (pending\<lparr>order_status := Approved,
                       approved_by := Some (case req_approved_by d of
                                              None \<Rightarrow> ''system'' | Some a \<Rightarrow> a),
                       approved_date := Some (clk (tick s)),
                       approval_notes := Some (case req_notes d of
                                                 None \<Rightarrow> [] | Some n \<Rightarrow> n)\<rparr>)) \<and>
      order_status order' = SentToSupplier \<and>
      pending_orders s' oid = Some order') \<and>
   (reject_order clk oid rdata s = (Inr order', s') \<longrightarrow>
      (\<exists>pending. pending_orders s oid = Some pending \<and>
         order_status pending = PendingApproval) \<and>
      order_status order' = Rejected \<and>
      pending_orders s' oid = Some order' \<and>
      approve_order clk' oid adata' s' = (Inl NotPendingApproval, s'))"
proof (intro conjI impI)
  assume a: "pending_orders s oid = Some order \<and> order_status order \<noteq> PendingApproval"
  then show "approve_order clk oid adata s = (Inl NotPendingApproval, s)"
    by (simp add: approve_order_def)
  from a show "reject_order clk oid rdata s = (Inl NotPendingApproval, s)"
    by (simp add: reject_order_def)
next
  assume a: "pending_orders s oid = Some order \<and> order_status order = PendingApproval"
  then show "fst (approve_order clk oid adata s) \<noteq> Inl NotPendingApproval"
    by (simp add: approve_order_def Let_def split: option.splits)
  from a show "fst (reject_order clk oid rdata s) \<noteq> Inl NotPendingApproval"
    by (simp add: reject_order_def Let_def split: option.splits)
next
  assume a: "pending_orders s oid = Some order \<and> order_status order = PendingApproval"
  then show "\<exists>sent s1. approve_order clk oid (Some ad) s = (Inr sent, s1) \<and>
         order_status sent = SentToSupplier \<and> pending_orders s1 oid = Some sent"
    by (simp add: approve_order_def Let_def send_order_to_supplier_def)
  from a show "\<exists>rejected s1. reject_order clk oid (Some rd) s = (Inr rejected, s1) \<and>
         order_status rejected = Rejected \<and> pending_orders s1 oid = Some rejected"
    by (simp add: reject_order_def Let_def)
next
  assume a: "approve_order clk oid adata s = (Inr order', s')"
  then show "\<exists>pending d. pending_orders s oid = Some pending \<and>
         order_status pending = PendingApproval \<and> adata = Some d \<and>
         order' = send_order_to_supplier clk (tick s + 1)
                    (pending\<lparr>order_status := Approved,
                       approved_by := Some (case req_approved_by d of
                                              None \<Rightarrow> ''system'' | Some a \<Rightarrow> a),
                       approved_date := Some (clk (tick s)),
                       approval_notes := Some (case req_notes d of
                                                 None \<Rightarrow> [] | Some n \<Rightarrow> n)\<rparr>)"
    by (auto simp: approve_order_def Let_def split: option.splits if_splits)
  from a show "order_status order' = SentToSupplier"
    by (auto simp: approve_order_def Let_def send_order_to_supplier_def
          split: option.splits if_splits)
  from a show "pending_orders s' oid = Some order'"
    by (auto simp: approve_order_def Let_def split: option.splits if_splits)
next
  assume a: "reject_order clk oid rdata s = (Inr order', s')"
  then show "\<exists>pending. pending_orders s oid = Some pending \<and>
         order_status pending = PendingApproval"
    by (auto simp: reject_order_def Let_def split: option.splits if_splits)
  from a show st: "order_status order' = Rejected"
    by (auto simp: reject_order_def Let_def split: option.splits if_splits)
  from a show stored: "pending_orders s' oid = Some order'"
    by (auto simp: reject_order_def Let_def split: option.splits if_splits)
  from st stored show "approve_order clk' oid adata' s' = (Inl NotPendingApproval, s')"
    by (simp add: approve_order_def)
qed

lemma reject_example:
  "reject_order (\<lambda>n. example_now) example_now
       (Some \<lparr>req_rejected_by = None, req_reason = None\<rparr>) pending_state =
     (Inr rejected_order,
      pending_state\<lparr>pending_orders := [example_now \<mapsto> rejected_order], tick := 1\<rparr>)"
  by (simp add: reject_order_def pending_state_def pending_order_def rejected_order_def
        example_order_def Let_def)

theorem approval_lifecycle_witness:
  "order_status pending_order = PendingApproval \<and>
   (\<exists>sent s1. approve_order (\<lambda>n. example_now) example_now
        (Some \<lparr>req_approved_by = None, req_notes = None\<rparr>) pending_state = (Inr sent, s1) \<and>
      order_status sent = SentToSupplier \<and> pending_orders s1 example_now = Some sent) \<and>
   fst (reject_order (\<lambda>n. example_now) example_now
          (Some \<lparr>req_rejected_by = None, req_reason = None\<rparr>) pending_state)
     = Inr rejected_order \<and>
   order_status rejected_order = Rejected \<and>
   approve_order (\<lambda>n. example_now) example_now
       (Some \<lparr>req_approved_by = None, req_notes = None\<rparr>)
       (pending_state\<lparr>pending_orders := [example_now \<mapsto> rejected_order], tick := 1\<rparr>)
     = (Inl NotPendingApproval,
        pending_state\<lparr>pending_orders := [example_now \<mapsto> rejected_order], tick := 1\<rparr>)"
proof -
  have stored: "pending_orders pending_state example_now = Some pending_order"
    by (simp add: pending_state_def)
  have pending: "order_status pending_order = PendingApproval"
    by (simp add: pending_order_def)
  note life = approval_lifecycle[where s = pending_state and oid = example_now
      and order = pending_order
      and clk = "\<lambda>n. example_now" and clk' = "\<lambda>n. example_now"
      and ad = "\<lparr>req_approved_by = None, req_notes = None\<rparr>"
      and rdata = "Some \<lparr>req_rejected_by = None, req_reason = None\<rparr>"
      and adata' = "Some \<lparr>req_approved_by = None, req_notes = None\<rparr>"
      and order' = rejected_order
      and s' = "pending_state\<lparr>pending_orders := [example_now \<mapsto> rejected_order],
                             tick := 1\<rparr>"]
  have approved: "\<exists>sent s1. approve_order (\<lambda>n. example_now) example_now
        (Some \<lparr>req_approved_by = None, req_notes = None\<rparr>) pending_state = (Inr sent, s1) \<and>
      order_status sent = SentToSupplier \<and> pending_orders s1 example_now = Some sent"
    using life stored pending by blast
  have refused: "approve_order (\<lambda>n. example_now) example_now
       (Some \<lparr>req_approved_by = None, req_notes = None\<rparr>)
       (pending_state\<lparr>pending_orders := [example_now \<mapsto> rejected_order], tick := 1\<rparr>)
     = (Inl NotPendingApproval,
        pending_state\<lparr>pending_orders := [example_now \<mapsto> rejected_order], tick := 1\<rparr>)"
    using life reject_example by blast
  have "order_status rejected_order = Rejected"
    by (simp add: rejected_order_def)
  with pending approved refused show ?thesis
    by (simp add: reject_example)
qed

section \<open>Reconciliation of a forecast\<close>










section \<open>The accuracy trend\<close>






section \<open>The historical series\<close>

lemma keep_recent_filter:
  "keep_recent parse cutoff xs = Inr kept \<Longrightarrow> kept = filter (in_window parse cutoff) xs"
  by (induction xs arbitrary: kept)
     (auto simp: in_window_def split: option.splits sum.splits)

lemma plus_days_Inr:
  "plus_days t n = Inr r \<Longrightarrow> r = t + n * day_us"
  by (auto simp: plus_days_def Let_def split: if_splits)


lemma cutoff_example: "plus_days example_now (- 365) = Inr (20395 * 86400000000)"
  by (simp add: plus_days_def example_now_def day_us_def dt_min_def dt_max_def Let_def)

lemma add_first:
  "add_historical_data (\<lambda>n. example_now) example_parse (Some (day_request 5)) no_history =
     (Inr 1, \<lparr>forecast_data = [],
              historical_data = [''p1'' \<mapsto> [day_record ''2026-11-01'' 5]]\<rparr>)"
  by (simp add: add_historical_data_def day_request_def no_history_def cutoff_example
        example_parse_def day_record_def Let_def)

lemma add_second:
  "add_historical_data (\<lambda>n. example_now) example_parse (Some (day_request 7))
       \<lparr>forecast_data = [],
        historical_data = [''p1'' \<mapsto> [day_record ''2026-11-01'' 5]]\<rparr> =
     (Inr 2, \<lparr>forecast_data = [],
              historical_data = [''p1'' \<mapsto> [day_record ''2026-11-01'' 5,
                                              day_record ''2026-11-01'' 7]]\<rparr>)"
  by (simp add: add_historical_data_def day_request_def cutoff_example
        example_parse_def day_record_def Let_def)

text \<open>
  Claim C3 as stated, that a series holds at most one record per calendar day, the
  last write winning, fails: \<^verbatim>\<open>add_historical_data\<close> appends and never removes a
  record for a date already present. Two appends for 2026-11-01, with demands 5 and 7,
  leave both records in the series.
\<close>

theorem one_record_per_day_counterexample:
  "map date
     (the (historical_data
        (snd (add_historical_data (\<lambda>n. example_now) example_parse (Some (day_request 7))
           (snd (add_historical_data (\<lambda>n. example_now) example_parse
                   (Some (day_request 5)) no_history)))) ''p1''))
     = [''2026-11-01'', ''2026-11-01''] \<and>
   map demand
     (the (historical_data
        (snd (add_historical_data (\<lambda>n. example_now) example_parse (Some (day_request 7))
           (snd (add_historical_data (\<lambda>n. example_now) example_parse
                   (Some (day_request 5)) no_history)))) ''p1''))
     = [5, 7]"
  by (simp add: add_first add_second) (simp add: day_record_def)

text \<open>
  Claim C3, as the code has it. After every append that succeeds, the product's series
  is sorted ascending by the date text, every record in it has a date that parses to
  later than 365 days before the clock reading of the append, and it holds exactly the
  records of the old series and the new record that are in this window: for every date,
  all the records with that date are kept, in the order in which they were appended.
\<close>

theorem add_historical_data_series:
  assumes "add_historical_data clk parse (Some d) s = (Inr n, s')"
    and "hr_product_id d = Some pid"
  shows "\<exists>series r.
           historical_data s' pid = Some series \<and> n = length series \<and>
           hr_date d = Some (date r) \<and> hr_demand d = Some (demand r) \<and>
           series = sort_key date
                      (filter (in_window parse (clk 1 - 365 * day_us))
                         ((case historical_data s pid of None \<Rightarrow> [] | Some xs \<Rightarrow> xs) @ [r])) \<and>
           sorted (map date series) \<and>
           (\<forall>x \<in> set series. \<exists>t. parse (date x) = Some t \<and> clk 1 - 365 * day_us < t) \<and>
           (\<forall>k. filter (\<lambda>x. date x = k) series =
                  filter (\<lambda>x. date x = k)
                    (filter (in_window parse (clk 1 - 365 * day_us))
                       ((case historical_data s pid of None \<Rightarrow> [] | Some xs \<Rightarrow> xs) @ [r])))"
proof -
  obtain dt dem where dt: "hr_date d = Some dt" and dem: "hr_demand d = Some dem"
    using assms by (auto simp: add_historical_data_def split: option.splits)
  define old where "old = (case historical_data s pid of None \<Rightarrow> [] | Some xs \<Rightarrow> xs)"
  define r where "r = \<lparr>date = dt, demand = dem,
        sales = (case hr_sales d of None \<Rightarrow> 0 | Some x \<Rightarrow> x),
        price = (case hr_price d of None \<Rightarrow> 0 | Some x \<Rightarrow> x),
        promotions = (case hr_promotions d of None \<Rightarrow> False | Some b \<Rightarrow> b),
        added_date = clk 0\<rparr>"
  obtain cutoff where cut: "plus_days (clk 1) (- 365) = Inr cutoff"
    using assms dt dem
    by (cases "plus_days (clk 1) (- 365)")
       (auto simp: add_historical_data_def Let_def)
  have cutoff: "cutoff = clk 1 - 365 * day_us"
    using plus_days_Inr[OF cut] by simp
  obtain kept where kept: "keep_recent parse cutoff (old @ [r]) = Inr kept"
    using assms dt dem cut
    by (cases "keep_recent parse cutoff (old @ [r])")
       (auto simp: add_historical_data_def Let_def old_def r_def)
  have s': "historical_data s' pid = Some (sort_key date kept)" and n: "n = length kept"
    using assms dt dem cut kept
    by (auto simp: add_historical_data_def Let_def old_def r_def)
  have kf: "kept = filter (in_window parse cutoff) (old @ [r])"
    by (rule keep_recent_filter[OF kept])
  have win: "\<forall>x \<in> set (sort_key date kept). \<exists>t. parse (date x) = Some t \<and> cutoff < t"
    unfolding kf by (auto simp: in_window_def split: option.splits)
  have "date r = dt" "demand r = dem" by (simp_all add: r_def)
  then show ?thesis
    using s' n dt dem kf win cutoff sort_key_stable[of date _ kept]
    unfolding old_def
    by (intro exI[of _ "sort_key date kept"] exI[of _ r]) (simp add: sorted_sort_key)
qed

theorem add_historical_data_series_witness:
  "\<exists>series. historical_data
       (snd (add_historical_data (\<lambda>n. example_now) example_parse (Some (day_request 7))
          \<lparr>forecast_data = [],
           historical_data = [''p1'' \<mapsto> [day_record ''2026-11-01'' 5]]\<rparr>)) ''p1''
       = Some series \<and>
     length series = 2 \<and> sorted (map date series) \<and>
     filter (\<lambda>x. date x = ''2026-11-01'') series = series"
proof -
  have pid: "hr_product_id (day_request 7) = Some ''p1''"
    by (simp add: day_request_def)
  from add_historical_data_series[OF add_second pid]
  obtain series where
    "historical_data \<lparr>forecast_data = [],
        historical_data = [''p1'' \<mapsto> [day_record ''2026-11-01'' 5,
                                        day_record ''2026-11-01'' 7]]\<rparr> ''p1'' = Some series"
    and "2 = length series" and "sorted (map date series)"
    by auto
  then show ?thesis
    by (simp add: add_second) (auto simp: day_record_def)
qed

section \<open>Forecast generation\<close>





























subsection \<open>The breakdown and the total\<close>



subsection \<open>Insufficient data\<close>




end
